theory Spec2Isabelle
  imports Main "HOL-Library.Word"
begin

unbundle bit_operations_syntax

section \<open>Common data\<close>

text \<open>
  Python \<open>bytes\<close> are lists of 8-bit words. Python \<open>str\<close> values that only travel through
  the transport manager (environment values, remote names, messages) are \<open>string\<close>s.
  The process environment read by \<open>os.getenv\<close> is a partial map.
\<close>

type_synonym byte = "8 word"
type_synonym bytes = "byte list"
type_synonym environ = "string \<Rightarrow> string option"

datatype exn =
    ValueError string
  | FileNotFoundError string
  | OtherError string

text \<open>\<open>str(e)\<close> of a caught exception.\<close>

fun exn_str :: "exn \<Rightarrow> string" where
  "exn_str (ValueError m) = m"
| "exn_str (FileNotFoundError m) = m"
| "exn_str (OtherError m) = m"

definition getenv :: "environ \<Rightarrow> string \<Rightarrow> string option" where
  "getenv env k = env k"

definition getenv_default :: "environ \<Rightarrow> string \<Rightarrow> string \<Rightarrow> string" where
  "getenv_default env k d = (case env k of None \<Rightarrow> d | Some v \<Rightarrow> v)"

text \<open>Truth value of an optional string: \<open>None\<close> and the empty string are false.\<close>

definition truthy :: "string option \<Rightarrow> bool" where
  "truthy v = (case v of None \<Rightarrow> False | Some s \<Rightarrow> s \<noteq> [])"

text \<open>
  \<open>str.lower\<close> on the ASCII letters. No character outside ASCII lowers to one of the
  letters of \<open>true\<close>, so the comparisons with \<open>'true'\<close> below are not affected.
\<close>

definition lower_char :: "char \<Rightarrow> char" where
  "lower_char c =
     (if 65 \<le> (of_char c :: nat) \<and> (of_char c :: nat) \<le> 90
      then char_of ((of_char c :: nat) + 32) else c)"

definition lower :: "string \<Rightarrow> string" where
  "lower s = map lower_char s"

definition startswith :: "'a list \<Rightarrow> 'a list \<Rightarrow> bool" where
  "startswith s pre = (take (length pre) s = pre)"

text \<open>\<open>sub in s\<close> on strings.\<close>

fun contains :: "'a list \<Rightarrow> 'a list \<Rightarrow> bool" where
  "contains [] sub = (sub = [])"
| "contains (c # cs) sub = (startswith (c # cs) sub \<or> contains cs sub)"

section \<open>sftp\_client.py: the transport manager\<close>

subsection \<open>Construction\<close>

record SFTPManager =
  host :: "string option"
  port :: int
  username :: "string option"
  password :: "string option"
  remote_path :: string
  dev_mode :: bool

definition config_required_msg :: string where
  "config_required_msg =
     ''SFTP configuration required: Set SFTP_HOST, SFTP_USERNAME, and SFTP_PASSWORD environment variables. '' @
     ''For security, no default credentials are provided. '' @
     ''For development/testing, set SFTP_DEV_MODE=true to disable SFTP operations.''"

text \<open>
  \<open>SFTPManager.__init__\<close>. The builtin \<open>int\<close> applied to the port text is the parameter
  \<open>py_int\<close>; it answers with the message of its \<open>ValueError\<close> or with the number. The
  warning printed in development mode is not modelled.
\<close>

definition SFTPManager_init :: "(string \<Rightarrow> string + int) \<Rightarrow> environ \<Rightarrow> exn + SFTPManager" where
  "SFTPManager_init py_int env =
     (case py_int (getenv_default env ''SFTP_PORT'' ''22'') of
        Inl msg \<Rightarrow> Inl (ValueError msg)
      | Inr p \<Rightarrow>
          (let m = \<lparr> host = getenv env ''SFTP_HOST'',
                     port = p,
                     username = getenv env ''SFTP_USERNAME'',
                     password = getenv env ''SFTP_PASSWORD'',
                     remote_path = getenv_default env ''SFTP_REMOTE_PATH'' ''/uploads'',
                     dev_mode = (lower (getenv_default env ''SFTP_DEV_MODE'' ''false'') = ''true'') \<rparr>
           in if \<not> truthy (host m) \<or> \<not> truthy (username m) \<or> \<not> truthy (password m)
              then (if \<not> dev_mode m then Inl (ValueError config_required_msg) else Inr m)
              else Inr m))"

subsection \<open>The network\<close>

text \<open>
  Every call the manager makes on the SSH client or on the SFTP channel is one event.
  The world keeps the events made so far and the remote side's answers: an answer may
  depend on the whole history, and any call may raise. Local staging files are not
  part of the model.
\<close>

datatype net_event =
    Connect string int string string bool
  | OpenSftp
  | ListDir string
  | MkDir string
  | Put string bytes
  | Chmod string nat
  | Stat string
  | Get string
  | Remove string
  | ListDirAttr string
  | CloseSftp
  | CloseSsh

record sftp_attr =
  filename :: string
  st_size :: nat
  st_mtime :: "nat option"
  st_mode :: "nat option"

record world =
  trace :: "net_event list"
  reply :: "net_event list \<Rightarrow> net_event \<Rightarrow> exn option"
  reply_get :: "net_event list \<Rightarrow> string \<Rightarrow> exn + bytes"
  reply_attrs :: "net_event list \<Rightarrow> string \<Rightarrow> exn + sftp_attr list"
  isoformat :: "nat \<Rightarrow> string"
  now :: nat

type_synonym 'a io = "world \<Rightarrow> (exn + 'a) \<times> world"

definition call :: "net_event \<Rightarrow> unit io" where
  "call e w =
     ((case reply w (trace w) e of Some x \<Rightarrow> Inl x | None \<Rightarrow> Inr ()),
      w\<lparr>trace := trace w @ [e]\<rparr>)"

definition call_get :: "string \<Rightarrow> bytes io" where
  "call_get p w = (reply_get w (trace w) p, w\<lparr>trace := trace w @ [Get p]\<rparr>)"

definition call_attrs :: "string \<Rightarrow> (sftp_attr list) io" where
  "call_attrs p w = (reply_attrs w (trace w) p, w\<lparr>trace := trace w @ [ListDirAttr p]\<rparr>)"

definition return :: "'a \<Rightarrow> 'a io" where
  "return x w = (Inr x, w)"

definition raise :: "exn \<Rightarrow> 'a io" where
  "raise e w = (Inl e, w)"

definition bind :: "'a io \<Rightarrow> ('a \<Rightarrow> 'b io) \<Rightarrow> 'b io" where
  "bind f g w = (case f w of (Inl e, w') \<Rightarrow> (Inl e, w') | (Inr x, w') \<Rightarrow> g x w')"

text \<open>\<open>try: f except FileNotFoundError: h\<close>.\<close>

definition except_not_found :: "'a io \<Rightarrow> 'a io \<Rightarrow> 'a io" where
  "except_not_found f h w =
     (case f w of (Inl (FileNotFoundError m), w') \<Rightarrow> h w' | r \<Rightarrow> r)"

text \<open>
  The \<open>finally\<close> block of the \<open>_via_sftp\<close> methods once the connection exists: the
  channel and the client are closed, and what closing raises is dropped.
\<close>

definition finally_close :: "'a io \<Rightarrow> 'a io" where
  "finally_close f w =
     (case f w of (r, w') \<Rightarrow> (r, w'\<lparr>trace := trace w' @ [CloseSftp, CloseSsh]\<rparr>))"

text \<open>
  \<open>_get_sftp_connection\<close>. Loading the known host keys is local; the host key policy
  chosen from \<open>SFTP_ACCEPT_UNKNOWN_HOSTS\<close> travels with the connect event.
\<close>

definition get_sftp_connection :: "environ \<Rightarrow> SFTPManager \<Rightarrow> unit io" where
  "get_sftp_connection env m =
     (let accept = (lower (getenv_default env ''SFTP_ACCEPT_UNKNOWN_HOSTS'' ''false'') = ''true'')
      in if \<not> truthy (host m) \<or> \<not> truthy (username m) \<or> \<not> truthy (password m)
         then raise (ValueError ''SFTP connection parameters missing'')
         else bind (call (Connect (the (host m)) (port m) (the (username m)) (the (password m)) accept))
                (\<lambda>_. call OpenSftp))"

subsection \<open>Results\<close>

record file_info =
  fi_filename :: string
  fi_size :: nat
  fi_modified :: string
  fi_is_directory :: bool

datatype payload =
    Uploaded string string nat
  | Downloaded bytes nat
  | Listing "file_info list"
  | Deleted
  | Message string

datatype result = Success payload | Failure string

definition dev_mode_msg :: string where
  "dev_mode_msg = ''SFTP not configured - running in development mode''"

text \<open>
  The outer \<open>try ... except Exception as e\<close> of the public methods: an exception of the
  body becomes a failure result carrying \<open>str(e)\<close>.
\<close>

definition guarded :: "result io \<Rightarrow> world \<Rightarrow> result \<times> world" where
  "guarded f w = (case f w of (Inl e, w') \<Rightarrow> (Failure (exn_str e), w') | (Inr r, w') \<Rightarrow> (r, w'))"

subsection \<open>Paths\<close>

text \<open>\<open>posixpath.basename\<close>: the text after the last slash.\<close>

definition basename :: "string \<Rightarrow> string" where
  "basename p = rev (takeWhile (\<lambda>c. c \<noteq> CHR ''/'') (rev p))"

text \<open>\<open>str.split(sep)\<close> for a one-character separator.\<close>

fun split :: "'a \<Rightarrow> 'a list \<Rightarrow> 'a list list" where
  "split sep [] = [[]]"
| "split sep (c # cs) =
     (if c = sep then [] # split sep cs
      else (case split sep cs of [] \<Rightarrow> [[c]] | h # t \<Rightarrow> (c # h) # t))"

fun join :: "'a list \<Rightarrow> 'a list list \<Rightarrow> 'a list" where
  "join sep [] = []"
| "join sep [x] = x"
| "join sep (x # y # ys) = x @ sep @ join sep (y # ys)"

text \<open>One round of the loop of \<open>posixpath.normpath\<close> over the components.\<close>

definition normpath_step :: "nat \<Rightarrow> string list \<Rightarrow> string \<Rightarrow> string list" where
  "normpath_step initial_slashes new_comps part =
     (if part = '''' \<or> part = ''.'' then new_comps
      else if part \<noteq> ''..'' \<or> (initial_slashes = 0 \<and> new_comps = [])
              \<or> (new_comps \<noteq> [] \<and> last new_comps = ''..'')
           then new_comps @ [part]
      else if new_comps \<noteq> [] then butlast new_comps
      else new_comps)"

definition normpath :: "string \<Rightarrow> string" where
  "normpath path =
     (if path = [] then ''.''
      else
        (let initial_slashes =
               (if startswith path ''/''
                then (if startswith path ''//'' \<and> \<not> startswith path ''///'' then 2 else 1)
                else (0::nat));
             comps = foldl (normpath_step initial_slashes) [] (split (CHR ''/'') path);
             p = replicate initial_slashes (CHR ''/'') @ join ''/'' comps
         in if p = [] then ''.'' else p))"

subsection \<open>Upload\<close>

definition upload_via_sftp :: "environ \<Rightarrow> SFTPManager \<Rightarrow> bytes \<Rightarrow> string \<Rightarrow> result io" where
  "upload_via_sftp env m file_data remote_filename =
     bind (get_sftp_connection env m) (\<lambda>_.
       finally_close
         (bind (except_not_found (call (ListDir (remote_path m))) (call (MkDir (remote_path m)))) (\<lambda>_.
            (let remote_file_path = remote_path m @ ''/'' @ remote_filename
             in bind (call (Put remote_file_path file_data)) (\<lambda>_.
                bind (call (Chmod remote_file_path 384)) (\<lambda>_.
                return (Success (Uploaded remote_filename remote_file_path (length file_data)))))))))"

definition upload_file :: "environ \<Rightarrow> SFTPManager \<Rightarrow> bytes \<Rightarrow> string \<Rightarrow> world \<Rightarrow> result \<times> world" where
  "upload_file env m file_data remote_filename =
     guarded
       (if dev_mode m then return (Failure dev_mode_msg)
        else
          (let sanitized_filename = basename remote_filename
           in if sanitized_filename = [] \<or> startswith sanitized_filename ''.''
              then return (Failure ''Invalid filename'')
              else upload_via_sftp env m file_data sanitized_filename))"

subsection \<open>Download\<close>

definition download_via_sftp :: "environ \<Rightarrow> SFTPManager \<Rightarrow> string \<Rightarrow> result io" where
  "download_via_sftp env m remote_filename =
     bind (get_sftp_connection env m) (\<lambda>_.
       finally_close
         (let remote_file_path = remote_path m @ ''/'' @ remote_filename
          in bind (except_not_found
                     (bind (call (Stat remote_file_path)) (\<lambda>_. return True))
                     (return False)) (\<lambda>found.
             if \<not> found then return (Failure ''File not found on server'')
             else bind (call_get remote_file_path) (\<lambda>file_data.
                  return (Success (Downloaded file_data (length file_data)))))))"

definition download_file :: "environ \<Rightarrow> SFTPManager \<Rightarrow> string \<Rightarrow> world \<Rightarrow> result \<times> world" where
  "download_file env m remote_filename =
     guarded
       (if dev_mode m then return (Failure dev_mode_msg)
        else
          (let sanitized_filename = basename remote_filename
           in if sanitized_filename = [] \<or> startswith sanitized_filename ''.''
              then return (Failure ''Invalid filename'')
              else download_via_sftp env m sanitized_filename))"

subsection \<open>List\<close>

text \<open>
  The entry built for one item of the remote listing. A missing or zero modification
  time is replaced by the current time; the directory bit is \<open>0o040000\<close>.
\<close>

definition file_info_of :: "world \<Rightarrow> sftp_attr \<Rightarrow> file_info" where
  "file_info_of w item =
     \<lparr> fi_filename = filename item,
       fi_size = st_size item,
       fi_modified =
         (case st_mtime item of
            None \<Rightarrow> isoformat w (now w)
          | Some t \<Rightarrow> if t \<noteq> 0 then isoformat w t else isoformat w (now w)),
       fi_is_directory =
         (case st_mode item of None \<Rightarrow> False | Some md \<Rightarrow> md AND 16384 \<noteq> 0) \<rparr>"

definition list_files_via_sftp :: "environ \<Rightarrow> SFTPManager \<Rightarrow> string option \<Rightarrow> result io" where
  "list_files_via_sftp env m remote_directory =
     bind (get_sftp_connection env m) (\<lambda>_.
       finally_close
         (let directory = (if truthy remote_directory then the remote_directory else remote_path m)
          in bind (call_attrs directory) (\<lambda>items w.
             return (Success (Listing (map (file_info_of w) items))) w)))"

definition list_files :: "environ \<Rightarrow> SFTPManager \<Rightarrow> string option \<Rightarrow> world \<Rightarrow> result \<times> world" where
  "list_files env m remote_directory =
     guarded
       (if dev_mode m then return (Failure dev_mode_msg)
        else if truthy remote_directory
                \<and> (let normalized_dir = normpath (the remote_directory)
                    in contains normalized_dir ''..'' \<or> startswith normalized_dir ''/'')
             then return (Failure ''Invalid directory path'')
        else list_files_via_sftp env m remote_directory)"

subsection \<open>Delete\<close>

definition delete_file_via_sftp :: "environ \<Rightarrow> SFTPManager \<Rightarrow> string \<Rightarrow> result io" where
  "delete_file_via_sftp env m remote_filename =
     bind (get_sftp_connection env m) (\<lambda>_.
       finally_close
         (let remote_file_path = remote_path m @ ''/'' @ remote_filename
          in bind (except_not_found
                     (bind (call (Stat remote_file_path)) (\<lambda>_. return True))
                     (return False)) (\<lambda>found.
             if \<not> found then return (Failure ''File not found on server'')
             else bind (call (Remove remote_file_path)) (\<lambda>_.
                  return (Success Deleted)))))"

definition delete_file :: "environ \<Rightarrow> SFTPManager \<Rightarrow> string \<Rightarrow> world \<Rightarrow> result \<times> world" where
  "delete_file env m remote_filename =
     guarded
       (if dev_mode m then return (Failure dev_mode_msg)
        else
          (let sanitized_filename = basename remote_filename
           in if sanitized_filename = [] \<or> startswith sanitized_filename ''.''
              then return (Failure ''Invalid filename'')
              else delete_file_via_sftp env m sanitized_filename))"

subsection \<open>Connection test\<close>

definition test_connection_via_sftp :: "environ \<Rightarrow> SFTPManager \<Rightarrow> result io" where
  "test_connection_via_sftp env m =
     bind (get_sftp_connection env m) (\<lambda>_.
       finally_close
         (bind (call (ListDir (remote_path m))) (\<lambda>_.
          return (Success (Message ''SFTP connection successful'')))))"

definition test_connection :: "environ \<Rightarrow> SFTPManager \<Rightarrow> world \<Rightarrow> result \<times> world" where
  "test_connection env m =
     guarded
       (if dev_mode m then return (Failure dev_mode_msg)
        else test_connection_via_sftp env m)"

section \<open>server.py: the compression ratio of an upload\<close>

text \<open>
  The handler computes
  \<open>round((1 - compressed_size / original_size) * 100, 2) if original_size > 0 else 0\<close>
  on two lengths. The arithmetic on floating point numbers is the interpreter's and is
  a parameter of the model: the true division of two integers with a divisor other
  than zero, an integer minus a float, a float times an integer, and \<open>round\<close> of a float
  to a number of digits. True division raises on a zero divisor, which the model keeps
  as a result. The lengths of byte strings are far below the range of a float, so the
  division has no other way to fail. The value of the expression is a float when the
  original size is positive and the integer \<open>0\<close> otherwise.
\<close>

datatype arith_error = ZeroDivisionError

record 'f float_ops =
  int_truediv :: "nat \<Rightarrow> nat \<Rightarrow> 'f"
  int_sub_float :: "int \<Rightarrow> 'f \<Rightarrow> 'f"
  float_mul_int :: "'f \<Rightarrow> int \<Rightarrow> 'f"
  float_round :: "'f \<Rightarrow> int \<Rightarrow> 'f"

datatype 'f number = PyInt int | PyFloat 'f

definition truediv :: "'f float_ops \<Rightarrow> nat \<Rightarrow> nat \<Rightarrow> arith_error + 'f" where
  "truediv F a b = (if b = 0 then Inl ZeroDivisionError else Inr (int_truediv F a b))"

definition compression_ratio :: "'f float_ops \<Rightarrow> nat \<Rightarrow> nat \<Rightarrow> arith_error + 'f number" where
  "compression_ratio F original_size compressed_size =
     (if original_size > 0
      then (case truediv F compressed_size original_size of
              Inl e \<Rightarrow> Inl e
            | Inr q \<Rightarrow>
                Inr (PyFloat (float_round F (float_mul_int F (int_sub_float F 1 q) 100) 2)))
      else Inr (PyInt 0))"

section \<open>encryption.py: bytes, integers and base64\<close>

subsection \<open>Bytes and integers\<close>

definition byte_of :: "nat \<Rightarrow> byte" where
  "byte_of n = of_nat n"

text \<open>
  \<open>n.to_bytes(k, 'big')\<close>, which raises \<open>OverflowError\<close> (\<open>None\<close>) when the number does
  not fit, and \<open>int.from_bytes(bs, 'big')\<close>.
\<close>

fun be_bytes :: "nat \<Rightarrow> nat \<Rightarrow> bytes" where
  "be_bytes 0 n = []"
| "be_bytes (Suc k) n = be_bytes k (n div 256) @ [byte_of (n mod 256)]"

definition to_bytes :: "nat \<Rightarrow> nat \<Rightarrow> bytes option" where
  "to_bytes n k = (if n < 256 ^ k then Some (be_bytes k n) else None)"

definition from_bytes :: "bytes \<Rightarrow> nat" where
  "from_bytes bs = foldl (\<lambda>acc b. acc * 256 + unat b) 0 bs"

subsection \<open>base64\<close>

text \<open>The standard alphabet: the character of a six-bit value, and back.\<close>

definition table_b2a :: "nat \<Rightarrow> byte" where
  "table_b2a i =
     (if i < 26 then byte_of (65 + i)
      else if i < 52 then byte_of (97 + (i - 26))
      else if i < 62 then byte_of (48 + (i - 52))
      else if i = 62 then 43
      else 47)"

definition table_a2b :: "byte \<Rightarrow> nat option" where
  "table_a2b c =
     (let n = unat c in
      if 65 \<le> n \<and> n \<le> 90 then Some (n - 65)
      else if 97 \<le> n \<and> n \<le> 122 then Some (n - 97 + 26)
      else if 48 \<le> n \<and> n \<le> 57 then Some (n - 48 + 52)
      else if n = 43 then Some 62
      else if n = 47 then Some 63
      else None)"

definition BASE64_PAD :: byte where
  "BASE64_PAD = 61"

text \<open>
  \<open>binascii.b2a_base64\<close> without the newline: three bytes give four characters, and
  a tail of one or two bytes is padded with \<open>=\<close>.
\<close>

fun b2a_base64 :: "bytes \<Rightarrow> bytes" where
  "b2a_base64 [] = []"
| "b2a_base64 [a] =
     [table_b2a (unat a div 4), table_b2a (unat a mod 4 * 16), BASE64_PAD, BASE64_PAD]"
| "b2a_base64 [a, b] =
     [table_b2a (unat a div 4), table_b2a (unat a mod 4 * 16 + unat b div 16),
      table_b2a (unat b mod 16 * 4), BASE64_PAD]"
| "b2a_base64 (a # b # c # rest) =
     [table_b2a (unat a div 4), table_b2a (unat a mod 4 * 16 + unat b div 16),
      table_b2a (unat b mod 16 * 4 + unat c div 64), table_b2a (unat c mod 64)]
     @ b2a_base64 rest"

text \<open>
  \<open>binascii.a2b_base64\<close> outside strict mode, as \<open>base64.b64decode\<close> calls it: the
  loop over the input with its state \<open>quad_pos\<close>, \<open>leftchar\<close> and \<open>pads\<close>. Characters
  outside the alphabet are skipped, a pad sequence that completes a group ends the
  decoding, and input that ends inside a group raises \<open>binascii.Error\<close> (\<open>None\<close>).
\<close>

fun a2b_base64 :: "nat \<Rightarrow> nat \<Rightarrow> nat \<Rightarrow> bytes \<Rightarrow> bytes option" where
  "a2b_base64 quad_pos leftchar pads [] = (if quad_pos \<noteq> 0 then None else Some [])"
| "a2b_base64 quad_pos leftchar pads (this_ch # rest) =
     (if this_ch = BASE64_PAD then
        (if quad_pos \<ge> 2 \<and> quad_pos + (pads + 1) \<ge> 4 then Some []
         else a2b_base64 quad_pos leftchar (if quad_pos \<ge> 2 then pads + 1 else pads) rest)
      else
        (case table_a2b this_ch of
           None \<Rightarrow> a2b_base64 quad_pos leftchar pads rest
         | Some v \<Rightarrow>
             (if quad_pos = 0 then a2b_base64 1 v 0 rest
              else if quad_pos = 1 then
                map_option ((#) (byte_of (leftchar * 4 + v div 16))) (a2b_base64 2 (v mod 16) 0 rest)
              else if quad_pos = 2 then
                map_option ((#) (byte_of (leftchar * 16 + v div 4))) (a2b_base64 3 (v mod 4) 0 rest)
              else
                map_option ((#) (byte_of (leftchar * 64 + v))) (a2b_base64 0 0 0 rest))))"

text \<open>
  \<open>base64.urlsafe_b64encode\<close> and \<open>base64.urlsafe_b64decode\<close>: the standard coding with
  \<open>+\<close> and \<open>/\<close> exchanged for \<open>-\<close> and \<open>_\<close>. The decoder translates first, so it reads
  both spellings.
\<close>

definition urlsafe_encode_translation :: "byte \<Rightarrow> byte" where
  "urlsafe_encode_translation c = (if c = 43 then 45 else if c = 47 then 95 else c)"

definition urlsafe_decode_translation :: "byte \<Rightarrow> byte" where
  "urlsafe_decode_translation c = (if c = 45 then 43 else if c = 95 then 47 else c)"

definition urlsafe_b64encode :: "bytes \<Rightarrow> bytes" where
  "urlsafe_b64encode s = map urlsafe_encode_translation (b2a_base64 s)"

definition urlsafe_b64decode :: "bytes \<Rightarrow> bytes option" where
  "urlsafe_b64decode s = a2b_base64 0 0 0 (map urlsafe_decode_translation s)"

text \<open>The bytes of an ASCII text.\<close>

definition asc :: "string \<Rightarrow> bytes" where
  "asc s = map of_char s"

section \<open>encryption.py: the cipher\<close>

subsection \<open>Text\<close>

text \<open>
  A Python \<open>str\<close> of this module is the list of its code points. \<open>str.encode('utf-8')\<close>
  raises \<open>UnicodeEncodeError\<close> (\<open>None\<close>) on a surrogate; a number above \<open>0x10FFFF\<close>
  is no code point and has no encoding either.
\<close>

type_synonym pystr = "nat list"
type_synonym uenviron = "string \<Rightarrow> pystr option"

definition ustr :: "string \<Rightarrow> pystr" where
  "ustr s = map of_char s"

definition utf8_char :: "nat \<Rightarrow> bytes option" where
  "utf8_char c =
     (if c < 128 then Some [byte_of c]
      else if c < 2048 then Some [byte_of (192 + c div 64), byte_of (128 + c mod 64)]
      else if c < 65536 then
        (if 55296 \<le> c \<and> c \<le> 57343 then None
         else Some [byte_of (224 + c div 4096), byte_of (128 + c div 64 mod 64),
                    byte_of (128 + c mod 64)])
      else if c < 1114112 then
        Some [byte_of (240 + c div 262144), byte_of (128 + c div 4096 mod 64),
              byte_of (128 + c div 64 mod 64), byte_of (128 + c mod 64)]
      else None)"

fun utf8_encode :: "pystr \<Rightarrow> bytes option" where
  "utf8_encode [] = Some []"
| "utf8_encode (c # cs) =
     (case utf8_char c of
        None \<Rightarrow> None
      | Some b \<Rightarrow> map_option ((@) b) (utf8_encode cs))"

text \<open>Truth value of an optional \<open>str\<close>.\<close>

definition utruthy :: "pystr option \<Rightarrow> bool" where
  "utruthy v = (case v of None \<Rightarrow> False | Some s \<Rightarrow> s \<noteq> [])"

subsection \<open>The primitives of the cryptography library\<close>

text \<open>
  AES-128 in CBC mode (key, initialisation vector, text), HMAC-SHA256 (key, message) and
  PBKDF2-HMAC-SHA256 (salt, iterations, length, password) are parameters of the model.
  What the library guarantees of them is \<open>crypto_ok\<close>: on a 16-byte key and vector and a
  text of whole blocks, CBC keeps the length and decryption inverts encryption; a tag
  has 32 bytes; the derived key has the length asked for.
\<close>

record crypto =
  cbc_encrypt :: "bytes \<Rightarrow> bytes \<Rightarrow> bytes \<Rightarrow> bytes"
  cbc_decrypt :: "bytes \<Rightarrow> bytes \<Rightarrow> bytes \<Rightarrow> bytes"
  hmac_sha256 :: "bytes \<Rightarrow> bytes \<Rightarrow> bytes"
  pbkdf2_hmac_sha256 :: "bytes \<Rightarrow> nat \<Rightarrow> nat \<Rightarrow> bytes \<Rightarrow> bytes"

definition crypto_ok :: "crypto \<Rightarrow> bool" where
  "crypto_ok P =
     ((\<forall>k iv m. length k = 16 \<and> length iv = 16 \<and> length m mod 16 = 0 \<longrightarrow>
          length (cbc_encrypt P k iv m) = length m
          \<and> cbc_decrypt P k iv (cbc_encrypt P k iv m) = m)
      \<and> (\<forall>k m. length (hmac_sha256 P k m) = 32)
      \<and> (\<forall>salt n len pw. length (pbkdf2_hmac_sha256 P salt n len pw) = len))"

datatype crypt_exn =
    InvalidToken
  | FernetKeyError
  | InvalidIVSize
  | UnicodeEncodeError
  | UnicodeDecodeError
  | IntTooBig
  | EncryptionFailed crypt_exn
  | DecryptionFailed crypt_exn

subsection \<open>PKCS7 padding to blocks of 16 bytes\<close>

definition pkcs7_pad :: "bytes \<Rightarrow> bytes" where
  "pkcs7_pad data =
     (let n = 16 - length data mod 16 in data @ replicate n (byte_of n))"

text \<open>
  The unpadder's \<open>finalize\<close>: the text must be a positive number of whole blocks, its
  last byte \<open>n\<close> must lie in \<open>1..16\<close>, and the last \<open>n\<close> bytes must all be \<open>n\<close>.
\<close>

definition pkcs7_unpad :: "bytes \<Rightarrow> bytes option" where
  "pkcs7_unpad padded =
     (if padded = [] \<or> length padded mod 16 \<noteq> 0 then None
      else
        (let n = unat (last padded) in
         if n = 0 \<or> n > 16 then None
         else if drop (length padded - n) padded = replicate n (last padded)
         then Some (take (length padded - n) padded)
         else None))"

subsection \<open>Fernet\<close>

record Fernet =
  signing_key :: bytes
  encryption_key :: bytes

text \<open>\<open>Fernet(key)\<close>: the key is the URL-safe base64 text of 32 bytes.\<close>

definition Fernet_init :: "bytes \<Rightarrow> crypt_exn + Fernet" where
  "Fernet_init k =
     (case urlsafe_b64decode k of
        None \<Rightarrow> Inl FernetKeyError
      | Some raw \<Rightarrow>
          if length raw \<noteq> 32 then Inl FernetKeyError
          else Inr \<lparr> signing_key = take 16 raw, encryption_key = drop 16 raw \<rparr>)"

text \<open>\<open>Fernet.generate_key\<close> on the 32 bytes that \<open>os.urandom\<close> hands out.\<close>

definition generate_key :: "bytes \<Rightarrow> bytes" where
  "generate_key rnd = urlsafe_b64encode rnd"

text \<open>
  \<open>Fernet.encrypt\<close>, with the clock reading and the 16 random bytes of the vector as
  arguments. The clock reading is a 64-bit number.
\<close>

definition Fernet_encrypt :: "crypto \<Rightarrow> Fernet \<Rightarrow> bytes \<Rightarrow> 64 word \<Rightarrow> bytes \<Rightarrow> bytes" where
  "Fernet_encrypt P f data current_time iv =
     (let padded_data = pkcs7_pad data;
          ciphertext = cbc_encrypt P (encryption_key f) iv padded_data;
          basic_parts = [128] @ be_bytes 8 (unat current_time) @ iv @ ciphertext;
          hmac = hmac_sha256 P (signing_key f) basic_parts
      in urlsafe_b64encode (basic_parts @ hmac))"

text \<open>
  \<open>Fernet.decrypt\<close> without a time limit: decode, check the version byte and the
  length, verify the tag over everything before the last 32 bytes, decrypt, unpad.
\<close>

definition Fernet_decrypt :: "crypto \<Rightarrow> Fernet \<Rightarrow> bytes \<Rightarrow> crypt_exn + bytes" where
  "Fernet_decrypt P f token =
     (case urlsafe_b64decode token of
        None \<Rightarrow> Inl InvalidToken
      | Some data \<Rightarrow>
          if data = [] \<or> hd data \<noteq> 128 then Inl InvalidToken
          else if length data < 9 then Inl InvalidToken
          else if hmac_sha256 P (signing_key f) (take (length data - 32) data)
                    \<noteq> drop (length data - 32) data
          then Inl InvalidToken
          else
            (let iv = take 16 (drop 9 data);
                 ciphertext = take (length data - 32 - 25) (drop 25 data)
             in if length iv \<noteq> 16 then Inl InvalidIVSize
                else if length ciphertext mod 16 \<noteq> 0 then Inl InvalidToken
                else (case pkcs7_unpad (cbc_decrypt P (encryption_key f) iv ciphertext) of
                        None \<Rightarrow> Inl InvalidToken
                      | Some unpadded \<Rightarrow> Inr unpadded)))"

subsection \<open>AESCipher\<close>

datatype py_data = Bytes bytes | Str pystr

record AESCipher =
  key :: bytes
  fernet :: Fernet

definition ugetenv_default :: "uenviron \<Rightarrow> string \<Rightarrow> pystr \<Rightarrow> pystr" where
  "ugetenv_default env k d = (case env k of None \<Rightarrow> d | Some v \<Rightarrow> v)"

definition derive_key_from_password :: "crypto \<Rightarrow> uenviron \<Rightarrow> pystr \<Rightarrow> crypt_exn + bytes" where
  "derive_key_from_password P env pw =
     (case utf8_encode (ugetenv_default env ''ENCRYPTION_SALT'' (ustr ''secure-sftp-salt'')) of
        None \<Rightarrow> Inl UnicodeEncodeError
      | Some salt_all \<Rightarrow>
          (case utf8_encode pw of
             None \<Rightarrow> Inl UnicodeEncodeError
           | Some pwb \<Rightarrow>
               Inr (urlsafe_b64encode (pbkdf2_hmac_sha256 P (take 16 salt_all) 100000 32 pwb))))"

text \<open>
  \<open>AESCipher.__init__\<close>. \<open>rnd\<close> is what \<open>os.urandom(32)\<close> returns when a key is generated.
  Whatever decoding the configured key raises is caught and replaced by a generated
  key; \<open>Fernet(self.key)\<close> comes after that and is not guarded.
\<close>

definition AESCipher_init :: "crypto \<Rightarrow> uenviron \<Rightarrow> pystr option \<Rightarrow> bytes \<Rightarrow> crypt_exn + AESCipher" where
  "AESCipher_init P env pw rnd =
     (let k =
        (if utruthy pw then derive_key_from_password P env (the pw)
         else
           (let key_b64 = env ''ENCRYPTION_KEY''
            in if utruthy key_b64 then
                 (case utf8_encode (the key_b64) of
                    None \<Rightarrow> Inr (generate_key rnd)
                  | Some kb \<Rightarrow>
                      (case urlsafe_b64decode kb of
                         None \<Rightarrow> Inr (generate_key rnd)
                       | Some raw \<Rightarrow> Inr raw))
               else Inr (generate_key rnd)))
      in case k of
           Inl e \<Rightarrow> Inl e
         | Inr kbytes \<Rightarrow>
             (case Fernet_init kbytes of
                Inl e \<Rightarrow> Inl e
              | Inr f \<Rightarrow> Inr \<lparr> key = kbytes, fernet = f \<rparr>))"

text \<open>
  Decoding the configured key raises: \<open>key_b64.encode()\<close> has no result, or
  \<open>base64.urlsafe_b64decode\<close> refuses the bytes. This is the case the \<open>except\<close> branch
  of the constructor handles.
\<close>

definition key_decoding_raises :: "pystr \<Rightarrow> bool" where
  "key_decoding_raises key_b64 =
     (case utf8_encode key_b64 of None \<Rightarrow> True | Some kb \<Rightarrow> urlsafe_b64decode kb = None)"

text \<open>
  \<open>AESCipher.encrypt\<close> and \<open>AESCipher.decrypt\<close>: a \<open>str\<close> is encoded first, and every
  exception is raised again as \<open>Exception('Encryption failed: ...')\<close>, respectively
  \<open>Exception('Decryption failed: ...')\<close>.
\<close>

definition encrypt :: "crypto \<Rightarrow> AESCipher \<Rightarrow> py_data \<Rightarrow> 64 word \<Rightarrow> bytes \<Rightarrow> crypt_exn + bytes" where
  "encrypt P c data current_time iv =
     (case data of
        Str s \<Rightarrow>
          (case utf8_encode s of
             None \<Rightarrow> Inl (EncryptionFailed UnicodeEncodeError)
           | Some b \<Rightarrow> Inr (Fernet_encrypt P (fernet c) b current_time iv))
      | Bytes b \<Rightarrow> Inr (Fernet_encrypt P (fernet c) b current_time iv))"

definition decrypt :: "crypto \<Rightarrow> AESCipher \<Rightarrow> py_data \<Rightarrow> crypt_exn + bytes" where
  "decrypt P c encrypted_data =
     (case (case encrypted_data of
              Str s \<Rightarrow> (case utf8_encode s of None \<Rightarrow> Inl UnicodeEncodeError | Some b \<Rightarrow> Inr b)
            | Bytes b \<Rightarrow> Inr b) of
        Inl e \<Rightarrow> Inl (DecryptionFailed e)
      | Inr token \<Rightarrow>
          (case Fernet_decrypt P (fernet c) token of
             Inl e \<Rightarrow> Inl (DecryptionFailed e)
           | Inr decrypted_data \<Rightarrow> Inr decrypted_data))"

section \<open>Concrete configurations\<close>

text \<open>
  Small configurations on which the results below are evaluated: a world whose remote side
  accepts every call, a manager with a complete configuration, the manager built in
  development mode, and an environment without the password.
\<close>

definition idle_world :: world where
  "idle_world = \<lparr> trace = [], reply = (\<lambda>_ _. None), reply_get = (\<lambda>_ _. Inr []),
     reply_attrs = (\<lambda>_ _. Inr []), isoformat = (\<lambda>_. ''''), now = 0 \<rparr>"

definition live_manager :: SFTPManager where
  "live_manager = \<lparr> host = Some ''h'', port = 22, username = Some ''u'', password = Some ''p'',
     remote_path = ''/uploads'', dev_mode = False \<rparr>"

definition dev_env :: environ where
  "dev_env = Map.empty(''SFTP_DEV_MODE'' \<mapsto> ''True'')"

definition dev_manager :: SFTPManager where
  "dev_manager = \<lparr> host = None, port = 22, username = None, password = None,
     remote_path = ''/uploads'', dev_mode = True \<rparr>"

definition no_password_env :: environ where
  "no_password_env = Map.empty(''SFTP_HOST'' \<mapsto> ''h'', ''SFTP_USERNAME'' \<mapsto> ''u'')"

text \<open>
  Float operations that compute nothing and write down the expression they are applied
  to: with them the model returns the expression the interpreter evaluates.
\<close>

datatype float_expr =
    TrueDiv nat nat
  | IntSub int float_expr
  | MulInt float_expr int
  | Round float_expr int

definition written :: "float_expr float_ops" where
  "written = \<lparr> int_truediv = TrueDiv, int_sub_float = IntSub,
                float_mul_int = MulInt, float_round = Round \<rparr>"

text \<open>
  The names the specification wants refused by the transport: a directory separator,
  a \<open>..\<close> segment, an absolute path, or a leading dot.
\<close>

definition spec_rejected_name :: "string \<Rightarrow> bool" where
  "spec_rejected_name n =
     (CHR ''/'' \<in> set n \<or> ''..'' \<in> set (split (CHR ''/'') n)
      \<or> startswith n ''/'' \<or> startswith n ''.'')"

text \<open>A stand-in for the primitives, to run the model on: complement of every byte, a checksum as tag.\<close>

definition toy_crypto :: crypto where
  "toy_crypto =
     \<lparr> cbc_encrypt = (\<lambda>k iv m. map (\<lambda>b. 255 - b) m),
       cbc_decrypt = (\<lambda>k iv m. map (\<lambda>b. 255 - b) m),
       hmac_sha256 = (\<lambda>k m. be_bytes 32 (sum_list (map unat (k @ m)))),
       pbkdf2_hmac_sha256 = (\<lambda>salt n len pw. be_bytes len (sum_list (map unat (salt @ pw)) + n)) \<rparr>"

definition toy_rnd :: bytes where
  "toy_rnd = [1, 2, 3, 4, 5, 6, 7, 8, 9, 10, 11, 12, 13, 14, 15, 16,
              17, 18, 19, 20, 21, 22, 23, 24, 25, 26, 27, 28, 29, 30, 31, 32]"

definition toy_iv :: bytes where
  "toy_iv = [100, 101, 102, 103, 104, 105, 106, 107, 108, 109, 110, 111, 112, 113, 114, 116]"

definition toy_cipher :: AESCipher where
  "toy_cipher =
     \<lparr> key = generate_key toy_rnd,
       fernet = \<lparr> signing_key = take 16 toy_rnd, encryption_key = drop 16 toy_rnd \<rparr> \<rparr>"

definition toy_data :: bytes where
  "toy_data =
     [128, 0, 0, 0, 0, 0, 0, 0, 7, 100, 101, 102, 103, 104, 105, 106, 107,
      108, 109, 110, 111, 112, 113, 114, 116, 239, 239, 239, 239, 239, 239,
      239, 239, 239, 239, 239, 239, 239, 239, 239, 239, 0, 0, 0, 0, 0, 0, 0,
      0, 0, 0, 0, 0, 0, 0, 0, 0, 0, 0, 0, 0, 0, 0, 0, 0, 0, 0, 0, 0, 0, 0, 22,
      184]"

text \<open>
  The token that \<open>toy_cipher\<close> makes of the empty text at clock reading 7 with the
  vector \<open>toy_iv\<close>: the URL-safe base64 text of \<open>toy_data\<close>. It ends in \<open>WuA==\<close>.
\<close>

definition toy_token :: bytes where
  "toy_token =
     [103, 65, 65, 65, 65, 65, 65, 65, 65, 65, 65, 72, 90, 71, 86, 109, 90,
      50, 104, 112, 97, 109, 116, 115, 98, 87, 53, 118, 99, 72, 70, 121,
      100, 79, 95, 118, 55, 45, 95, 118, 55, 45, 95, 118, 55, 45, 95, 118,
      55, 45, 95, 118, 55, 45, 56, 65, 65, 65, 65, 65, 65, 65, 65, 65, 65,
      65, 65, 65, 65, 65, 65, 65, 65, 65, 65, 65, 65, 65, 65, 65, 65, 65,
      65, 65, 65, 65, 65, 65, 65, 65, 65, 65, 65, 65, 65, 87, 117, 65, 61,
      61]"

text \<open>
  Well-formed URL-safe base64, as the specification's words \<open>valid base64\<close> are read here:
  a whole number of four-character groups, made of characters of the alphabet and
  closed by at most two pad characters.
\<close>

definition spec_valid_base64 :: "bytes \<Rightarrow> bool" where
  "spec_valid_base64 s =
     (length s mod 4 = 0
      \<and> list_all (\<lambda>c. table_a2b (urlsafe_decode_translation c) \<noteq> None)
            (takeWhile (\<lambda>c. c \<noteq> BASE64_PAD) s)
      \<and> dropWhile (\<lambda>c. c \<noteq> BASE64_PAD) s \<in> set [[], [BASE64_PAD], [BASE64_PAD, BASE64_PAD]])"

text \<open>Environments that configure a key: one the decoder refuses, one it accepts after dropping a character.\<close>

definition undecodable_key_env :: uenviron where
  "undecodable_key_env = Map.empty(''ENCRYPTION_KEY'' \<mapsto> ustr ''abc'')"

definition malformed_key_env :: uenviron where
  "malformed_key_env = Map.empty(''ENCRYPTION_KEY'' \<mapsto> ustr ''abcd!'')"

section \<open>Properties of the transport manager\<close>

lemma truthy_simps [simp]: "truthy None = False" "truthy (Some s) = (s \<noteq> [])"
  by (simp_all add: truthy_def)

lemma io_simps:
  "return x w = (Inr x, w)"
  "raise e w = (Inl e, w)"
  "guarded (return r) w = (r, w)"
  by (simp_all add: return_def raise_def guarded_def)

lemma lower_True: "lower ''True'' = ''true''"
  by code_simp

subsection \<open>Construction\<close>

text \<open>
  C8. When the host, the user name or the credential is missing (absent or empty) and
  development mode is not switched on, construction raises: the \<open>ValueError\<close> that
  asks for the configuration, or, when the port text is not a number, the
  \<open>ValueError\<close> of \<open>int\<close>, which comes first. No manager is returned.
\<close>

theorem missing_configuration_is_fatal:
  assumes "\<not> truthy (getenv env ''SFTP_HOST'') \<or> \<not> truthy (getenv env ''SFTP_USERNAME'')
           \<or> \<not> truthy (getenv env ''SFTP_PASSWORD'')"
      and "lower (getenv_default env ''SFTP_DEV_MODE'' ''false'') \<noteq> ''true''"
  shows "SFTPManager_init py_int env =
           Inl (ValueError (case py_int (getenv_default env ''SFTP_PORT'' ''22'') of
                              Inl msg \<Rightarrow> msg | Inr p \<Rightarrow> config_required_msg))"
  using assms by (auto simp: SFTPManager_init_def Let_def split: sum.splits)

theorem missing_configuration_witness:
  "\<not> truthy (getenv no_password_env ''SFTP_PASSWORD'')
   \<and> lower (getenv_default no_password_env ''SFTP_DEV_MODE'' ''false'') \<noteq> ''true''
   \<and> SFTPManager_init (\<lambda>_. Inr 22) no_password_env = Inl (ValueError config_required_msg)"
proof -
  have a: "\<not> truthy (getenv no_password_env ''SFTP_HOST'') \<or> \<not> truthy (getenv no_password_env ''SFTP_USERNAME'')
      \<or> \<not> truthy (getenv no_password_env ''SFTP_PASSWORD'')"
    by (simp add: no_password_env_def getenv_def)
  have b: "lower (getenv_default no_password_env ''SFTP_DEV_MODE'' ''false'') \<noteq> ''true''"
    by (simp add: no_password_env_def getenv_default_def lower_def lower_char_def)
  have c: "\<not> truthy (getenv no_password_env ''SFTP_PASSWORD'')"
    by (simp add: no_password_env_def getenv_def)
  show ?thesis
    using b c missing_configuration_is_fatal [OF a b, of "\<lambda>_. Inr 22"] by simp
qed

subsection \<open>Development mode\<close>

lemma dev_mode_upload: "dev_mode m \<Longrightarrow> upload_file env m d n w = (Failure dev_mode_msg, w)"
  by (simp add: upload_file_def io_simps)

lemma dev_mode_download: "dev_mode m \<Longrightarrow> download_file env m n w = (Failure dev_mode_msg, w)"
  by (simp add: download_file_def io_simps)

lemma dev_mode_list: "dev_mode m \<Longrightarrow> list_files env m dir w = (Failure dev_mode_msg, w)"
  by (simp add: list_files_def io_simps)

lemma dev_mode_delete: "dev_mode m \<Longrightarrow> delete_file env m n w = (Failure dev_mode_msg, w)"
  by (simp add: delete_file_def io_simps)

lemma dev_mode_test: "dev_mode m \<Longrightarrow> test_connection env m w = (Failure dev_mode_msg, w)"
  by (simp add: test_connection_def io_simps)

lemma init_dev_mode:
  "SFTPManager_init py_int env = Inr m \<Longrightarrow>
   dev_mode m = (lower (getenv_default env ''SFTP_DEV_MODE'' ''false'') = ''true'')"
  by (auto simp: SFTPManager_init_def Let_def split: sum.splits if_splits)

lemma init_dev_env: "SFTPManager_init (\<lambda>_. Inr 22) dev_env = Inr dev_manager"
  by (simp add: SFTPManager_init_def dev_env_def dev_manager_def getenv_def getenv_default_def
      lower_True Let_def)

text \<open>
  C5. On a manager constructed with \<open>SFTP_DEV_MODE\<close> set to true, each of the five
  operations (upload, download, list, delete, connection test) returns the failure
  result with the development mode message and leaves the world as it was: no event is
  added to the trace, so no connection is opened and nothing is sent.
\<close>

theorem disabled_mode_rejects_every_operation:
  assumes "SFTPManager_init py_int env0 = Inr m"
      and "lower (getenv_default env0 ''SFTP_DEV_MODE'' ''false'') = ''true''"
  shows "upload_file env m file_data name w = (Failure dev_mode_msg, w)
       \<and> download_file env m name w = (Failure dev_mode_msg, w)
       \<and> list_files env m dir w = (Failure dev_mode_msg, w)
       \<and> delete_file env m name w = (Failure dev_mode_msg, w)
       \<and> test_connection env m w = (Failure dev_mode_msg, w)"
proof -
  from assms have "dev_mode m" by (simp add: init_dev_mode)
  then show ?thesis
    by (simp add: dev_mode_upload dev_mode_download dev_mode_list dev_mode_delete dev_mode_test)
qed

theorem disabled_mode_witness:
  "SFTPManager_init (\<lambda>_. Inr 22) dev_env = Inr dev_manager
   \<and> lower (getenv_default dev_env ''SFTP_DEV_MODE'' ''false'') = ''true''
   \<and> upload_file Map.empty dev_manager [1, 2] ''a.enc'' idle_world = (Failure dev_mode_msg, idle_world)
   \<and> download_file Map.empty dev_manager ''a.enc'' idle_world = (Failure dev_mode_msg, idle_world)
   \<and> list_files Map.empty dev_manager None idle_world = (Failure dev_mode_msg, idle_world)
   \<and> delete_file Map.empty dev_manager ''a.enc'' idle_world = (Failure dev_mode_msg, idle_world)
   \<and> test_connection Map.empty dev_manager idle_world = (Failure dev_mode_msg, idle_world)"
proof -
  have a: "SFTPManager_init (\<lambda>_. Inr 22) dev_env = Inr dev_manager" by (rule init_dev_env)
  have b: "lower (getenv_default dev_env ''SFTP_DEV_MODE'' ''false'') = ''true''"
    by (simp add: dev_env_def getenv_default_def lower_True)
  show ?thesis
    using a b disabled_mode_rejects_every_operation [OF a b, of Map.empty "[1, 2]" "''a.enc''" idle_world None]
    by simp
qed

subsection \<open>Remote names\<close>

lemma basename_no_separator: "CHR ''/'' \<notin> set (basename n)"
proof
  assume "CHR ''/'' \<in> set (basename n)"
  then have "CHR ''/'' \<in> set (takeWhile (\<lambda>c. c \<noteq> CHR ''/'') (rev n))"
    by (simp add: basename_def)
  then show False by (auto dest: set_takeWhileD)
qed

text \<open>
  C4, as stated, fails. The name \<open>../x\<close> has a separator, a \<open>..\<close> segment and a
  leading dot, and the upload is not refused: the manager connects and writes the
  object under the reduced name \<open>x\<close>.
\<close>

theorem path_traversal_names_counterexample:
  "spec_rejected_name ''../x''
   \<and> fst (upload_file Map.empty live_manager [7] ''../x'' idle_world)
       = Success (Uploaded ''x'' ''/uploads/x'' 1)
   \<and> trace (snd (upload_file Map.empty live_manager [7] ''../x'' idle_world))
       = [Connect ''h'' 22 ''u'' ''p'' False, OpenSftp, ListDir ''/uploads'',
          Put ''/uploads/x'' [7], Chmod ''/uploads/x'' 384, CloseSftp, CloseSsh]"
  by code_simp

text \<open>
  C4, amended. Outside development mode, upload, download and delete reduce the remote
  name to its last component, the text after the last separator. When that component is
  empty or begins with a dot the operation fails with \<open>Invalid filename\<close> and the world
  is unchanged (no connection, no traffic). Otherwise the operation goes on with the
  component in place of the name; the component never contains a separator.
\<close>

theorem remote_names_are_reduced_to_their_last_component:
  assumes "\<not> dev_mode m"
  shows "upload_file env m file_data name w =
           (if basename name = [] \<or> startswith (basename name) ''.''
            then (Failure ''Invalid filename'', w)
            else guarded (upload_via_sftp env m file_data (basename name)) w)
       \<and> download_file env m name w =
           (if basename name = [] \<or> startswith (basename name) ''.''
            then (Failure ''Invalid filename'', w)
            else guarded (download_via_sftp env m (basename name)) w)
       \<and> delete_file env m name w =
           (if basename name = [] \<or> startswith (basename name) ''.''
            then (Failure ''Invalid filename'', w)
            else guarded (delete_file_via_sftp env m (basename name)) w)
       \<and> CHR ''/'' \<notin> set (basename name)"
  using assms basename_no_separator [of name]
  by (auto simp: upload_file_def download_file_def delete_file_def io_simps Let_def startswith_def)

theorem remote_names_witness:
  "\<not> dev_mode live_manager
   \<and> upload_file Map.empty live_manager [7] ''a/.b'' idle_world = (Failure ''Invalid filename'', idle_world)
   \<and> download_file Map.empty live_manager ''a/.b'' idle_world = (Failure ''Invalid filename'', idle_world)
   \<and> delete_file Map.empty live_manager ''a/.b'' idle_world = (Failure ''Invalid filename'', idle_world)
   \<and> basename ''a/.b'' = ''.b''"
proof -
  have a: "\<not> dev_mode live_manager" by (simp add: live_manager_def)
  have b: "basename ''a/.b'' = ''.b''" by (simp add: basename_def)
  show ?thesis
    using a b remote_names_are_reduced_to_their_last_component [OF a, of Map.empty "[7]" "''a/.b''" idle_world]
    by (simp add: startswith_def)
qed

section \<open>Properties of the upload handler\<close>

text \<open>
  C7. With the interpreter's float operations \<open>F\<close>, the ratio of an upload is
  \<open>round((1 - compressed/original) * 100, 2)\<close> when the original size is positive and the
  integer \<open>0\<close> when it is zero; the division is only reached with a positive divisor, so
  no \<open>ZeroDivisionError\<close> arises for any pair of sizes.
\<close>

theorem compression_ratio_guarded:
  "compression_ratio F original_size compressed_size \<noteq> Inl ZeroDivisionError
   \<and> compression_ratio F 0 compressed_size = Inr (PyInt 0)
   \<and> (0 < original_size \<longrightarrow>
        compression_ratio F original_size compressed_size =
          Inr (PyFloat (float_round F
                 (float_mul_int F
                    (int_sub_float F 1 (int_truediv F compressed_size original_size)) 100) 2)))"
  by (simp add: compression_ratio_def truediv_def)

theorem compression_ratio_witness:
  "(0::nat) < 160
   \<and> compression_ratio written 160 67
       = Inr (PyFloat (Round (MulInt (IntSub 1 (TrueDiv 67 160)) 100) 2))
   \<and> compression_ratio written 160 67 \<noteq> Inl ZeroDivisionError
   \<and> compression_ratio written 0 67 = Inr (PyInt 0)"
  using compression_ratio_guarded [of written 160 67] compression_ratio_guarded [of written 0 67]
  by (simp add: written_def)

section \<open>Properties of base64\<close>

lemma unat_byte_of: "n < 256 \<Longrightarrow> unat (byte_of n) = n"
  by (simp add: byte_of_def unat_of_nat)

lemma byte_of_unat: "byte_of (unat b) = b"
  by (simp add: byte_of_def)

lemma unat_byte_less: "unat (b :: byte) < 256"
  using unsigned_less [of b, where ?'a = nat] by simp

lemma unat_table_b2a:
  "unat (table_b2a i) =
     (if i < 26 then 65 + i else if i < 52 then 71 + i else if i < 62 then i - 4
      else if i = 62 then 43 else 47)"
  by (simp add: table_b2a_def unat_byte_of)

lemma table_roundtrip: "i < 64 \<Longrightarrow> table_a2b (table_b2a i) = Some i"
  by (auto simp: table_a2b_def unat_table_b2a Let_def)

lemma table_b2a_neq:
  "table_b2a i \<noteq> BASE64_PAD" "table_b2a i \<noteq> 45" "table_b2a i \<noteq> 95"
proof -
  have "unat (table_b2a i) \<noteq> 61 \<and> unat (table_b2a i) \<noteq> 45 \<and> unat (table_b2a i) \<noteq> 95"
    unfolding unat_table_b2a by (simp split: if_splits) arith
  then show "table_b2a i \<noteq> BASE64_PAD" "table_b2a i \<noteq> 45" "table_b2a i \<noteq> 95"
    by (auto simp: BASE64_PAD_def)
qed

lemma sextet_bounds:
  fixes x y :: nat
  assumes "x < 256" "y < 256"
  shows "x div 4 < 64" "x mod 4 * 16 < 64" "x mod 4 * 16 + y div 16 < 64"
        "x mod 16 * 4 < 64" "x mod 16 * 4 + y div 64 < 64" "x mod 64 < 64"
  using assms by simp_all

lemma regroup1:
  fixes x y z :: nat
  assumes "y < 256"
  shows "x div 4 * 4 + (x mod 4 * 16 + y div 16) div 16 = x"
proof -
  have "y div 16 < 16" using assms by simp
  then have "(x mod 4 * 16 + y div 16) div 16 = x mod 4" by simp
  then show ?thesis by simp
qed

lemma regroup2:
  fixes x y z :: nat
  assumes "y < 256" "z < 256"
  shows "(x mod 4 * 16 + y div 16) mod 16 * 16 + (y mod 16 * 4 + z div 64) div 4 = y"
proof -
  have a: "y div 16 < 16" using assms by simp
  have b: "z div 64 < 4" using assms by simp
  have "(x mod 4 * 16 + y div 16) mod 16 = y div 16" using a by simp
  moreover have "(y mod 16 * 4 + z div 64) div 4 = y mod 16" using b by simp
  ultimately show ?thesis by simp
qed

lemma regroup3:
  fixes x y z :: nat
  assumes "z < 256"
  shows "(y mod 16 * 4 + z div 64) mod 4 * 64 + z mod 64 = z"
proof -
  have b: "z div 64 < 4" using assms by simp
  have "(y mod 16 * 4 + z div 64) mod 4 = z div 64" using b by simp
  then show ?thesis by simp
qed

lemma a2b_data_char:
  assumes "i < 64"
  shows "a2b_base64 q l p (table_b2a i # rest) =
     (if q = 0 then a2b_base64 1 i 0 rest
      else if q = 1 then
        map_option ((#) (byte_of (l * 4 + i div 16))) (a2b_base64 2 (i mod 16) 0 rest)
      else if q = 2 then
        map_option ((#) (byte_of (l * 16 + i div 4))) (a2b_base64 3 (i mod 4) 0 rest)
      else
        map_option ((#) (byte_of (l * 64 + i))) (a2b_base64 0 0 0 rest))"
  using assms by (simp add: table_roundtrip table_b2a_neq)

lemma a2b_pad_char:
  "a2b_base64 q l p (BASE64_PAD # rest) =
     (if q \<ge> 2 \<and> q + (p + 1) \<ge> 4 then Some []
      else a2b_base64 q l (if q \<ge> 2 then p + 1 else p) rest)"
  by simp

text \<open>Decoding the four characters of a full group, of a two-byte tail and of a one-byte tail.\<close>

lemma a2b_group:
  "a2b_base64 0 l p
     (table_b2a (unat a div 4) # table_b2a (unat a mod 4 * 16 + unat b div 16)
      # table_b2a (unat b mod 16 * 4 + unat c div 64) # table_b2a (unat c mod 64) # rest)
   = map_option (\<lambda>r. a # b # c # r) (a2b_base64 0 0 0 rest)"
proof -
  have ua: "unat a < 256" and ub: "unat b < 256" and uc: "unat c < 256"
    by (rule unat_byte_less)+
  have s1: "unat a div 4 < 64" and s2: "unat a mod 4 * 16 + unat b div 16 < 64"
    using sextet_bounds [OF ua ub] by blast+
  have s3: "unat b mod 16 * 4 + unat c div 64 < 64" and s4: "unat c mod 64 < 64"
    using sextet_bounds [OF ub uc] sextet_bounds [OF uc uc] by blast+
  have "a2b_base64 0 l p
     (table_b2a (unat a div 4) # table_b2a (unat a mod 4 * 16 + unat b div 16)
      # table_b2a (unat b mod 16 * 4 + unat c div 64) # table_b2a (unat c mod 64) # rest)
    = map_option ((#) (byte_of (unat a div 4 * 4 + (unat a mod 4 * 16 + unat b div 16) div 16)))
        (map_option ((#) (byte_of ((unat a mod 4 * 16 + unat b div 16) mod 16 * 16
                                   + (unat b mod 16 * 4 + unat c div 64) div 4)))
          (map_option ((#) (byte_of ((unat b mod 16 * 4 + unat c div 64) mod 4 * 64 + unat c mod 64)))
            (a2b_base64 0 0 0 rest)))"
    unfolding a2b_data_char [OF s1] a2b_data_char [OF s2] a2b_data_char [OF s3] a2b_data_char [OF s4]
    by simp
  also have "\<dots> = map_option (\<lambda>r. a # b # c # r) (a2b_base64 0 0 0 rest)"
    unfolding regroup1 [OF ub] regroup2 [OF ub uc] regroup3 [OF uc] byte_of_unat
    by (simp add: option.map_comp comp_def)
  finally show ?thesis .
qed


lemma a2b_tail1:
  "a2b_base64 0 l p [table_b2a (unat a div 4), table_b2a (unat a mod 4 * 16), BASE64_PAD, BASE64_PAD]
   = Some [a]"
proof -
  have ua: "unat a < 256" by (rule unat_byte_less)
  have s1: "unat a div 4 < 64" and s2: "unat a mod 4 * 16 < 64"
    using sextet_bounds [OF ua ua] by blast+
  have e: "unat a div 4 * 4 + unat a mod 4 * 16 div 16 = unat a" by simp
  have "a2b_base64 0 l p [table_b2a (unat a div 4), table_b2a (unat a mod 4 * 16), BASE64_PAD, BASE64_PAD]
    = Some [byte_of (unat a div 4 * 4 + unat a mod 4 * 16 div 16)]"
    unfolding a2b_data_char [OF s1] a2b_data_char [OF s2] a2b_pad_char
    by simp
  then show ?thesis
    unfolding e byte_of_unat .
qed

lemma a2b_tail2:
  "a2b_base64 0 l p
     [table_b2a (unat a div 4), table_b2a (unat a mod 4 * 16 + unat b div 16),
      table_b2a (unat b mod 16 * 4), BASE64_PAD]
   = Some [a, b]"
proof -
  have ua: "unat a < 256" and ub: "unat b < 256" by (rule unat_byte_less)+
  have s1: "unat a div 4 < 64" and s2: "unat a mod 4 * 16 + unat b div 16 < 64"
    using sextet_bounds [OF ua ub] by blast+
  have s3: "unat b mod 16 * 4 < 64"
    using sextet_bounds [OF ub ub] by blast
  have z: "(0::nat) < 256" by simp
  have e: "(unat a mod 4 * 16 + unat b div 16) mod 16 * 16 + unat b mod 16 * 4 div 4 = unat b"
    using regroup2 [OF ub z, of "unat a"] by simp
  have "a2b_base64 0 l p
     [table_b2a (unat a div 4), table_b2a (unat a mod 4 * 16 + unat b div 16),
      table_b2a (unat b mod 16 * 4), BASE64_PAD]
    = Some [byte_of (unat a div 4 * 4 + (unat a mod 4 * 16 + unat b div 16) div 16),
            byte_of ((unat a mod 4 * 16 + unat b div 16) mod 16 * 16 + unat b mod 16 * 4 div 4)]"
    unfolding a2b_data_char [OF s1] a2b_data_char [OF s2] a2b_data_char [OF s3] a2b_pad_char
    by simp
  then show ?thesis
    unfolding e regroup1 [OF ub] byte_of_unat .
qed

lemma a2b_b2a: "a2b_base64 0 l p (b2a_base64 xs) = Some xs"
proof (induction xs arbitrary: l p rule: b2a_base64.induct)
  case 1
  show ?case by simp
next
  case (2 a)
  show ?case unfolding b2a_base64.simps by (rule a2b_tail1)
next
  case (3 a b)
  show ?case unfolding b2a_base64.simps by (rule a2b_tail2)
next
  case (4 a b c rest)
  show ?case
    unfolding b2a_base64.simps append_Cons append_Nil a2b_group
    by (simp add: "4.IH")
qed

lemma translation_inverse:
  "c \<noteq> 45 \<Longrightarrow> c \<noteq> 95 \<Longrightarrow> urlsafe_decode_translation (urlsafe_encode_translation c) = c"
  by (simp add: urlsafe_decode_translation_def urlsafe_encode_translation_def)

lemma b2a_base64_chars:
  "ch \<in> set (b2a_base64 xs) \<Longrightarrow> ch \<noteq> 45 \<and> ch \<noteq> 95"
proof (induction xs rule: b2a_base64.induct)
  case 1
  then show ?case by simp
next
  case (2 a)
  then show ?case using table_b2a_neq(2,3) by (auto simp: BASE64_PAD_def)
next
  case (3 a b)
  then show ?case using table_b2a_neq(2,3) by (auto simp: BASE64_PAD_def)
next
  case (4 a b c rest)
  then show ?case using table_b2a_neq(2,3) by auto
qed

lemma urlsafe_b64_roundtrip: "urlsafe_b64decode (urlsafe_b64encode xs) = Some xs"
proof -
  have "map urlsafe_decode_translation (map urlsafe_encode_translation (b2a_base64 xs)) = b2a_base64 xs"
    unfolding map_map
    by (rule map_idI) (simp add: translation_inverse b2a_base64_chars)
  then show ?thesis
    by (simp add: urlsafe_b64decode_def urlsafe_b64encode_def a2b_b2a)
qed

section \<open>Properties of the cipher\<close>

lemma length_be_bytes [simp]: "length (be_bytes k n) = k"
  by (induction k arbitrary: n) simp_all

lemma be_bytes_numeral:
  "be_bytes (numeral k) n = be_bytes (pred_numeral k) (n div 256) @ [byte_of (n mod 256)]"
proof -
  have "be_bytes (Suc (pred_numeral k)) n = be_bytes (pred_numeral k) (n div 256) @ [byte_of (n mod 256)]"
    by (rule be_bytes.simps)
  then show ?thesis by (simp only: numeral_eq_Suc [symmetric])
qed

lemma replicate_numeral:
  "replicate (numeral k) x = x # replicate (pred_numeral k) x"
proof -
  have "replicate (Suc (pred_numeral k)) x = x # replicate (pred_numeral k) x"
    by (rule replicate_Suc)
  then show ?thesis by (simp only: numeral_eq_Suc [symmetric])
qed

lemma byte_of_numeral: "byte_of (numeral n) = numeral n" "byte_of 0 = 0" "byte_of 1 = 1"
  by (simp_all add: byte_of_def)

subsection \<open>Padding\<close>

lemma pkcs7_pad_length: "length (pkcs7_pad d) mod 16 = 0"
proof -
  have "(length d + (16 - length d mod 16)) mod 16 = 0"
    by presburger
  then show ?thesis by (simp add: pkcs7_pad_def Let_def)
qed

lemma pkcs7_unpad_pad: "pkcs7_unpad (pkcs7_pad d) = Some d"
proof -
  define n where "n = 16 - length d mod 16"
  have n: "0 < n" "n \<le> 16" by (simp_all add: n_def)
  have pad: "pkcs7_pad d = d @ replicate n (byte_of n)"
    by (simp add: pkcs7_pad_def n_def Let_def)
  have l: "last (d @ replicate n (byte_of n)) = byte_of n"
    using n by simp
  have u: "unat (byte_of n) = n"
    using n by (simp add: unat_byte_of)
  have m: "length (d @ replicate n (byte_of n)) mod 16 = 0"
    using pkcs7_pad_length [of d] by (simp add: pad)
  show ?thesis
    unfolding pad pkcs7_unpad_def l u Let_def
    using n m by simp
qed

subsection \<open>Fernet\<close>

lemma Fernet_init_lengths:
  assumes "Fernet_init k = Inr f"
  shows "length (signing_key f) = 16" "length (encryption_key f) = 16"
  using assms by (auto simp: Fernet_init_def split: option.splits if_splits)

lemma Fernet_init_generated:
  assumes "length rnd = 32"
  shows "Fernet_init (generate_key rnd) =
           Inr \<lparr> signing_key = take 16 rnd, encryption_key = drop 16 rnd \<rparr>"
  using assms by (simp add: Fernet_init_def generate_key_def urlsafe_b64_roundtrip)

lemma Fernet_roundtrip:
  assumes ok: "crypto_ok P" and k: "length (encryption_key f) = 16" and iv: "length iv = 16"
  shows "Fernet_decrypt P f (Fernet_encrypt P f d t iv) = Inr d"
proof -
  define ct where "ct = cbc_encrypt P (encryption_key f) iv (pkcs7_pad d)"
  define basic where "basic = [128] @ be_bytes 8 (unat t) @ iv @ ct"
  define h where "h = hmac_sha256 P (signing_key f) basic"
  have ctl: "length ct = length (pkcs7_pad d)"
    and dec: "cbc_decrypt P (encryption_key f) iv ct = pkcs7_pad d"
    using ok k iv pkcs7_pad_length [of d] by (simp_all add: crypto_ok_def ct_def)
  have hl: "length h = 32" using ok by (simp add: crypto_ok_def h_def)
  have enc: "Fernet_encrypt P f d t iv = urlsafe_b64encode (basic @ h)"
    by (simp add: Fernet_encrypt_def Let_def ct_def basic_def h_def)
  have t1: "take (length (basic @ h) - 32) (basic @ h) = basic"
    by (simp add: hl)
  have t2: "drop (length (basic @ h) - 32) (basic @ h) = h"
    by (simp add: hl)
  have t3: "take 16 (drop 9 (basic @ h)) = iv"
    by (simp add: basic_def iv)
  have t4: "take (length (basic @ h) - 32 - 25) (drop 25 (basic @ h)) = ct"
    by (simp add: basic_def iv hl)
  have t5: "basic @ h \<noteq> []" "hd (basic @ h) = 128" "\<not> length (basic @ h) < 9"
    by (simp_all add: basic_def)
  show ?thesis
    unfolding enc Fernet_decrypt_def urlsafe_b64_roundtrip option.case Let_def t1 t2 t3 t4
    using t5 ctl pkcs7_pad_length [of d]
    by (simp add: h_def iv dec pkcs7_unpad_pad)
qed

text \<open>What \<open>Fernet.decrypt\<close> answers depends on the token through its decoded bytes only.\<close>

lemma Fernet_decrypt_decoded:
  "urlsafe_b64decode tok' = urlsafe_b64decode tok \<Longrightarrow>
   Fernet_decrypt P f tok' = Fernet_decrypt P f tok"
  by (simp add: Fernet_decrypt_def)

lemma Fernet_decrypt_authentic:
  assumes "Fernet_decrypt P f tok = Inr p"
  shows "\<exists>data. urlsafe_b64decode tok = Some data \<and> data \<noteq> [] \<and> hd data = 128
           \<and> hmac_sha256 P (signing_key f) (take (length data - 32) data)
               = drop (length data - 32) data"
  using assms
  by (auto simp: Fernet_decrypt_def Let_def split: option.splits if_splits)

subsection \<open>AESCipher\<close>

lemma AESCipher_init_fernet:
  assumes "AESCipher_init P env pw rnd = Inr c"
  shows "Fernet_init (key c) = Inr (fernet c)"
  using assms
  by (auto simp: AESCipher_init_def Let_def split: sum.splits if_splits option.splits)

lemma AESCipher_key_length:
  assumes "AESCipher_init P env pw rnd = Inr c"
  shows "length (encryption_key (fernet c)) = 16"
  using assms by (blast dest: AESCipher_init_fernet Fernet_init_lengths)

lemma roundtrip_bytes:
  assumes "crypto_ok P" and "AESCipher_init P env pw rnd = Inr c" and "length iv = 16"
  shows "encrypt P c (Bytes p) t iv = Inr (Fernet_encrypt P (fernet c) p t iv)"
    and "decrypt P c (Bytes (Fernet_encrypt P (fernet c) p t iv)) = Inr p"
  using assms AESCipher_key_length [OF assms(2)]
  by (simp_all add: encrypt_def decrypt_def Fernet_roundtrip)

subsection \<open>The stand-in primitives\<close>

lemma toy_hmac: "hmac_sha256 toy_crypto k m = be_bytes 32 (sum_list (map unat (k @ m)))"
  by (simp add: toy_crypto_def)

lemma toy_cbc:
  "cbc_encrypt toy_crypto k iv m = map (\<lambda>b. 255 - b) m"
  "cbc_decrypt toy_crypto k iv m = map (\<lambda>b. 255 - b) m"
  by (simp_all add: toy_crypto_def)

lemma toy_pbkdf2:
  "pbkdf2_hmac_sha256 toy_crypto salt n len pw = be_bytes len (sum_list (map unat (salt @ pw)) + n)"
  by (simp add: toy_crypto_def)

lemma crypto_ok_toy: "crypto_ok toy_crypto"
  unfolding crypto_ok_def toy_hmac toy_cbc toy_pbkdf2
  by (simp add: comp_def)

lemma toy_rnd_length: "length toy_rnd = 32"
  by (simp add: toy_rnd_def)

lemma toy_iv_length: "length toy_iv = 16"
  by (simp add: toy_iv_def)

lemma utruthy_simps [simp]: "utruthy None = False" "utruthy (Some s) = (s \<noteq> [])"
  by (simp_all add: utruthy_def)

lemma toy_cipher_init: "AESCipher_init toy_crypto Map.empty None toy_rnd = Inr toy_cipher"
  by (simp add: AESCipher_init_def Let_def Fernet_init_generated [OF toy_rnd_length] toy_cipher_def)

text \<open>
  C2. With the cipher of a constructed \<open>AESCipher\<close> and any 16-byte vector, encrypting a
  byte sequence succeeds and decrypting the token gives the byte sequence back, for
  every byte sequence (the empty one and those that are no valid text included):
  \<open>decrypt(encrypt(p)) == p\<close>.
\<close>

theorem decrypt_inverts_encrypt:
  assumes "crypto_ok P" and "AESCipher_init P env pw rnd = Inr c" and "length iv = 16"
  shows "\<exists>tok. encrypt P c (Bytes p) t iv = Inr tok \<and> decrypt P c (Bytes tok) = Inr p"
  using roundtrip_bytes [OF assms] by blast

theorem decrypt_inverts_encrypt_witness:
  "crypto_ok toy_crypto \<and> AESCipher_init toy_crypto Map.empty None toy_rnd = Inr toy_cipher
   \<and> length toy_iv = 16
   \<and> (\<exists>tok. encrypt toy_crypto toy_cipher (Bytes [0, 255, 254]) 7 toy_iv = Inr tok
             \<and> decrypt toy_crypto toy_cipher (Bytes tok) = Inr [0, 255, 254])"
  using decrypt_inverts_encrypt [OF crypto_ok_toy toy_cipher_init toy_iv_length, of "[0, 255, 254]" 7]
    crypto_ok_toy toy_cipher_init toy_iv_length
  by simp


text \<open>
  C10. \<open>encrypt\<close> and \<open>decrypt\<close> take a \<open>str\<close> by encoding it as UTF-8 first: on a string
  with the encoding \<open>b\<close> they do what they do on \<open>b\<close> (a string without one, a lone
  surrogate, makes them raise), and decrypting the token of a string gives its UTF-8
  bytes, a value of type bytes.
\<close>

theorem strings_are_encoded_first:
  "encrypt P c (Str s) t iv =
     (case utf8_encode s of
        None \<Rightarrow> Inl (EncryptionFailed UnicodeEncodeError)
      | Some b \<Rightarrow> encrypt P c (Bytes b) t iv)
   \<and> decrypt P c (Str s) =
     (case utf8_encode s of
        None \<Rightarrow> Inl (DecryptionFailed UnicodeEncodeError)
      | Some b \<Rightarrow> decrypt P c (Bytes b))
   \<and> (crypto_ok P \<and> AESCipher_init P env pw rnd = Inr c \<and> length iv = 16
        \<and> utf8_encode s = Some b \<longrightarrow>
       (\<exists>tok. encrypt P c (Str s) t iv = Inr tok \<and> decrypt P c (Bytes tok) = Inr b))"
proof -
  have "encrypt P c (Str s) t iv = Inr (Fernet_encrypt P (fernet c) b t iv)"
    if "utf8_encode s = Some b"
    using that by (simp add: encrypt_def)
  then show ?thesis
    using roundtrip_bytes(2) [of P env pw rnd c iv b t]
    by (auto simp: encrypt_def decrypt_def split: option.splits)
qed

lemma utf8_hi: "utf8_encode (ustr ''hi'') = Some (asc ''hi'')"
  by (simp add: ustr_def asc_def utf8_char_def byte_of_numeral)

theorem strings_are_encoded_first_witness:
  "crypto_ok toy_crypto \<and> AESCipher_init toy_crypto Map.empty None toy_rnd = Inr toy_cipher
   \<and> length toy_iv = 16 \<and> utf8_encode (ustr ''hi'') = Some (asc ''hi'')
   \<and> encrypt toy_crypto toy_cipher (Str (ustr ''hi'')) 7 toy_iv
       = encrypt toy_crypto toy_cipher (Bytes (asc ''hi'')) 7 toy_iv
   \<and> (\<exists>tok. encrypt toy_crypto toy_cipher (Str (ustr ''hi'')) 7 toy_iv = Inr tok
             \<and> decrypt toy_crypto toy_cipher (Bytes tok) = Inr (asc ''hi''))"
proof -
  note inst = strings_are_encoded_first
    [of toy_crypto toy_cipher "ustr ''hi''" 7 toy_iv Map.empty None toy_rnd "asc ''hi''"]
  have h: "crypto_ok toy_crypto \<and> AESCipher_init toy_crypto Map.empty None toy_rnd = Inr toy_cipher
      \<and> length toy_iv = 16 \<and> utf8_encode (ustr ''hi'') = Some (asc ''hi'')"
    using crypto_ok_toy toy_cipher_init toy_iv_length utf8_hi by simp
  have e: "encrypt toy_crypto toy_cipher (Str (ustr ''hi'')) 7 toy_iv
       = encrypt toy_crypto toy_cipher (Bytes (asc ''hi'')) 7 toy_iv"
    using inst by (simp add: utf8_hi)
  have r: "\<exists>tok. encrypt toy_crypto toy_cipher (Str (ustr ''hi'')) 7 toy_iv = Inr tok
             \<and> decrypt toy_crypto toy_cipher (Bytes tok) = Inr (asc ''hi'')"
    using inst h by blast
  show ?thesis using h e r by blast
qed

subsection \<open>The configured key\<close>

lemma utf8_abc: "utf8_encode (ustr ''abc'') = Some (asc ''abc'')"
  by (simp add: ustr_def asc_def utf8_char_def byte_of_numeral)

lemma utf8_abcd: "utf8_encode (ustr ''abcd!'') = Some (asc ''abcd!'')"
  by (simp add: ustr_def asc_def utf8_char_def byte_of_numeral)

lemma decode_abc: "urlsafe_b64decode (asc ''abc'') = None"
  by (simp add: urlsafe_b64decode_def asc_def urlsafe_decode_translation_def table_a2b_def
      BASE64_PAD_def byte_of_numeral)

lemma decode_raw: "urlsafe_b64decode [105, 183, 29] = None"
  by (simp add: urlsafe_b64decode_def urlsafe_decode_translation_def table_a2b_def
      BASE64_PAD_def)

lemma decode_abcd: "urlsafe_b64decode (asc ''abcd!'') = Some [105, 183, 29]"
  by (simp add: urlsafe_b64decode_def asc_def urlsafe_decode_translation_def table_a2b_def
      BASE64_PAD_def byte_of_numeral)

text \<open>
  C9, as stated, fails. The key text \<open>abcd!\<close> is not well-formed base64, and construction
  does not fall back: the decoder drops the \<open>!\<close> and returns three bytes, and
  \<open>Fernet\<close> refuses them.
\<close>

theorem malformed_key_counterexample:
  "malformed_key_env ''ENCRYPTION_KEY'' = Some (ustr ''abcd!'')
   \<and> \<not> spec_valid_base64 (asc ''abcd!'')
   \<and> AESCipher_init toy_crypto malformed_key_env None toy_rnd = Inl FernetKeyError"
proof -
  have "\<not> spec_valid_base64 (asc ''abcd!'')"
    by (simp add: spec_valid_base64_def asc_def)
  moreover have "ustr ''abcd!'' \<noteq> []"
    by (simp add: ustr_def)
  then have "AESCipher_init toy_crypto malformed_key_env None toy_rnd = Inl FernetKeyError"
    by (simp add: AESCipher_init_def malformed_key_env_def Let_def utf8_abcd decode_abcd
        Fernet_init_def decode_raw)
  ultimately show ?thesis by (simp add: malformed_key_env_def)
qed

text \<open>
  C9, amended. When no password is given and the configured key is present and its
  decoding raises, construction succeeds with a generated key: the key and the cipher
  are those of the 32 random bytes and owe nothing to the configured text.
\<close>

theorem undecodable_key_falls_back_to_generated_key:
  assumes "\<not> utruthy pw" and "env ''ENCRYPTION_KEY'' = Some key_b64" and "key_b64 \<noteq> []"
      and "key_decoding_raises key_b64" and "length rnd = 32"
  shows "AESCipher_init P env pw rnd =
           Inr \<lparr> key = generate_key rnd,
                 fernet = \<lparr> signing_key = take 16 rnd, encryption_key = drop 16 rnd \<rparr> \<rparr>"
  using assms
  by (auto simp: AESCipher_init_def Let_def key_decoding_raises_def Fernet_init_generated
      split: option.splits)

theorem undecodable_key_witness:
  "\<not> utruthy None \<and> undecodable_key_env ''ENCRYPTION_KEY'' = Some (ustr ''abc'')
   \<and> ustr ''abc'' \<noteq> [] \<and> key_decoding_raises (ustr ''abc'') \<and> length toy_rnd = 32
   \<and> AESCipher_init toy_crypto undecodable_key_env None toy_rnd = Inr toy_cipher"
proof -
  have a: "\<not> utruthy None" by simp
  have b: "undecodable_key_env ''ENCRYPTION_KEY'' = Some (ustr ''abc'')"
    by (simp add: undecodable_key_env_def)
  have c: "ustr ''abc'' \<noteq> []" by (simp add: ustr_def)
  have d: "key_decoding_raises (ustr ''abc'')"
    by (simp add: key_decoding_raises_def utf8_abc decode_abc)
  show ?thesis
    using a b c d toy_rnd_length
      undecodable_key_falls_back_to_generated_key
        [of None undecodable_key_env "ustr ''abc''" toy_rnd toy_crypto]
    by (simp add: toy_cipher_def)
qed


subsection \<open>Tampering\<close>

lemma toy_cipher_simps:
  "signing_key (fernet toy_cipher) = [1, 2, 3, 4, 5, 6, 7, 8, 9, 10, 11, 12, 13, 14, 15, 16]"
  "encryption_key (fernet toy_cipher) = [17, 18, 19, 20, 21, 22, 23, 24, 25, 26, 27, 28, 29, 30, 31, 32]"
  by (simp_all add: toy_cipher_def toy_rnd_def)

lemma toy_pad: "pkcs7_pad [] = [16, 16, 16, 16, 16, 16, 16, 16, 16, 16, 16, 16, 16, 16, 16, 16]"
  by (simp add: pkcs7_pad_def replicate_numeral byte_of_numeral)

lemma toy_basic:
  "[128] @ be_bytes 8 (unat (7 :: 64 word)) @ toy_iv
     @ cbc_encrypt toy_crypto (encryption_key (fernet toy_cipher)) toy_iv (pkcs7_pad [])
   = take 41 toy_data"
  unfolding toy_cbc toy_pad
  by (simp add: be_bytes_numeral byte_of_numeral toy_iv_def toy_data_def)

lemma toy_tag:
  "hmac_sha256 toy_crypto (signing_key (fernet toy_cipher)) (take 41 toy_data) = drop 41 toy_data"
  unfolding toy_hmac
  by (simp add: toy_cipher_simps toy_data_def be_bytes_numeral byte_of_numeral)

lemma toy_encode: "urlsafe_b64encode toy_data = toy_token"
  by (simp add: toy_data_def toy_token_def urlsafe_b64encode_def
      urlsafe_encode_translation_def table_b2a_def BASE64_PAD_def byte_of_numeral)

lemma toy_encrypt: "encrypt toy_crypto toy_cipher (Bytes []) 7 toy_iv = Inr toy_token"
proof -
  have "Fernet_encrypt toy_crypto (fernet toy_cipher) [] 7 toy_iv
          = urlsafe_b64encode (take 41 toy_data @ drop 41 toy_data)"
    unfolding Fernet_encrypt_def Let_def toy_basic toy_tag ..
  then show ?thesis
    by (simp add: encrypt_def toy_encode)
qed

lemma toy_decode_tampered: "urlsafe_b64decode (toy_token[97 := 66]) = Some toy_data"
  by (simp add: toy_token_def toy_data_def urlsafe_b64decode_def urlsafe_decode_translation_def
      table_a2b_def BASE64_PAD_def byte_of_numeral)

lemma toy_decode: "urlsafe_b64decode toy_token = Some toy_data"
  using urlsafe_b64_roundtrip [of toy_data] by (simp add: toy_encode)

lemma toy_decrypt: "decrypt toy_crypto toy_cipher (Bytes toy_token) = Inr []"
  using roundtrip_bytes [OF crypto_ok_toy toy_cipher_init toy_iv_length, of "[]" 7]
  by (simp add: toy_encrypt)

lemma toy_decrypt_tampered: "decrypt toy_crypto toy_cipher (Bytes (toy_token[97 := 66])) = Inr []"
proof -
  have "Fernet_decrypt toy_crypto (fernet toy_cipher) (toy_token[97 := 66])
          = Fernet_decrypt toy_crypto (fernet toy_cipher) toy_token"
    by (rule Fernet_decrypt_decoded) (simp add: toy_decode toy_decode_tampered)
  then show ?thesis
    using toy_decrypt by (simp add: decrypt_def)
qed

text \<open>
  C6, as stated, fails. \<open>toy_token\<close> is a ciphertext made by \<open>encrypt\<close>. Replacing its
  character at position 97, an \<open>A\<close>, by \<open>B\<close> changes one byte and nothing else, and
  \<open>decrypt\<close> does not fail on the result: it returns the plaintext. The character
  carries two bits of the last byte and four bits that the decoder drops.
\<close>

theorem one_byte_modification_counterexample:
  "encrypt toy_crypto toy_cipher (Bytes []) 7 toy_iv = Inr toy_token
   \<and> length (toy_token[97 := 66]) = length toy_token
   \<and> toy_token ! 97 = 65
   \<and> take 97 (toy_token[97 := 66]) = take 97 toy_token
   \<and> drop 98 (toy_token[97 := 66]) = drop 98 toy_token
   \<and> decrypt toy_crypto toy_cipher (Bytes (toy_token[97 := 66])) = Inr []"
proof -
  have "toy_token ! 97 = 65" by (simp add: toy_token_def)
  then show ?thesis
    using toy_encrypt toy_decrypt_tampered by simp
qed

text \<open>
  C6, amended. \<open>decrypt\<close> returns a plaintext only for a token whose base64 decoding
  begins with the version byte and ends with the tag of what precedes it under the
  signing key; what it raises otherwise is \<open>Decryption failed\<close>, and no data is returned
  with it. Its answer depends on the token through the decoded bytes only: a modified
  token that decodes to the same bytes is decrypted like the original.
\<close>

theorem decrypt_returns_authenticated_data_only:
  "(decrypt P c (Bytes tok) = Inr p \<longrightarrow>
      (\<exists>data. urlsafe_b64decode tok = Some data \<and> data \<noteq> [] \<and> hd data = 128
          \<and> hmac_sha256 P (signing_key (fernet c)) (take (length data - 32) data)
              = drop (length data - 32) data))
   \<and> (decrypt P c (Bytes tok) = Inl e \<longrightarrow> (\<exists>cause. e = DecryptionFailed cause))
   \<and> (urlsafe_b64decode tok' = urlsafe_b64decode tok \<longrightarrow>
        decrypt P c (Bytes tok') = decrypt P c (Bytes tok))"
proof -
  have a: "\<exists>data. urlsafe_b64decode tok = Some data \<and> data \<noteq> [] \<and> hd data = 128
          \<and> hmac_sha256 P (signing_key (fernet c)) (take (length data - 32) data)
              = drop (length data - 32) data"
    if "decrypt P c (Bytes tok) = Inr p"
  proof -
    from that have "Fernet_decrypt P (fernet c) tok = Inr p"
      by (simp add: decrypt_def split: sum.splits)
    then show ?thesis by (rule Fernet_decrypt_authentic)
  qed
  have b: "\<exists>cause. e = DecryptionFailed cause" if "decrypt P c (Bytes tok) = Inl e"
    using that by (auto simp: decrypt_def split: sum.splits)
  have c: "decrypt P c (Bytes tok') = decrypt P c (Bytes tok)"
    if "urlsafe_b64decode tok' = urlsafe_b64decode tok"
    using Fernet_decrypt_decoded [OF that] by (simp add: decrypt_def)
  show ?thesis using a b c by blast
qed

theorem decrypt_returns_authenticated_data_only_witness:
  "decrypt toy_crypto toy_cipher (Bytes (toy_token[97 := 66])) = Inr []
   \<and> urlsafe_b64decode (toy_token[97 := 66]) = urlsafe_b64decode toy_token
   \<and> decrypt toy_crypto toy_cipher (Bytes (asc ''abc'')) = Inl (DecryptionFailed InvalidToken)
   \<and> (\<exists>data. urlsafe_b64decode (toy_token[97 := 66]) = Some data \<and> data \<noteq> [] \<and> hd data = 128
          \<and> hmac_sha256 toy_crypto (signing_key (fernet toy_cipher)) (take (length data - 32) data)
              = drop (length data - 32) data)
   \<and> decrypt toy_crypto toy_cipher (Bytes (toy_token[97 := 66]))
       = decrypt toy_crypto toy_cipher (Bytes toy_token)"
proof -
  have f: "decrypt toy_crypto toy_cipher (Bytes (asc ''abc'')) = Inl (DecryptionFailed InvalidToken)"
    by (simp add: decrypt_def Fernet_decrypt_def decode_abc)
  have g: "urlsafe_b64decode (toy_token[97 := 66]) = urlsafe_b64decode toy_token"
    by (simp add: toy_decode toy_decode_tampered)
  show ?thesis
    using decrypt_returns_authenticated_data_only
      [of toy_crypto toy_cipher "toy_token[97 := 66]" "[]" "DecryptionFailed InvalidToken" "toy_token[97 := 66]"]
      decrypt_returns_authenticated_data_only
      [of toy_crypto toy_cipher "toy_token" "[]" "DecryptionFailed InvalidToken" "toy_token[97 := 66]"]
      decrypt_returns_authenticated_data_only
      [of toy_crypto toy_cipher "asc ''abc''" "[]" "DecryptionFailed InvalidToken" "asc ''abc''"]
      toy_decrypt_tampered f g
    by simp
qed

end
